theory Spec2Isabelle
  imports Complex_Main
begin

section \<open>Values, exceptions and effects\<close>

text \<open>
  The bridge of \<^verbatim>\<open>app.py\<close> moves values between a serial device and socket clients.
  A value is what \<^verbatim>\<open>json.loads\<close> and the socket transport hand to the program. A float
  is kept by its exact rational value, or is one of the three non-finite floats. Text
  is a list of characters, each a code point below 256.
\<close>

datatype pyfloat = Finite rat | PosInf | NegInf | NaN

datatype pyval =
    PNone
  | PBool bool
  | PInt int
  | PFloat pyfloat
  | PStr string
  | PList "pyval list"
  | PDict "(string \<times> pyval) list"

text \<open>
  The exceptions that reach the program's handlers. All of them are subclasses of
  \<^verbatim>\<open>Exception\<close>; \<open>SerialException\<close> carries the text \<^verbatim>\<open>str(e)\<close>.
\<close>

datatype pyexc =
    JSONDecodeError
  | AttributeError
  | TypeError
  | ValueError
  | OverflowError
  | RecursionError
  | SerialException string

text \<open>
  What a piece of the program does to the outside: a call of \<^verbatim>\<open>ser.write\<close> with the
  given text, a call of \<^verbatim>\<open>emit\<close> with an event name and a payload, and a call of
  \<^verbatim>\<open>time.sleep\<close> (in milliseconds). Console output is left out of the trace, and
  \<^verbatim>\<open>emit\<close> and \<^verbatim>\<open>print\<close> are taken to return.
\<close>

datatype action = Write string | Emit string pyval | Sleep nat

text \<open>
  \<^verbatim>\<open>json.loads\<close> and the text case of \<^verbatim>\<open>int\<close> belong to the interpreter's library; the
  program is modelled over any such pair of functions. \<open>Inl\<close> is the exception raised.
\<close>

type_synonym json_loads = "string \<Rightarrow> pyexc + pyval"
type_synonym int_of_text = "string \<Rightarrow> pyexc + int"

text \<open>
  The global \<^verbatim>\<open>ser\<close> is \<^verbatim>\<open>None\<close> or an open port. For the command handlers a port is
  what its \<^verbatim>\<open>write\<close> answers: \<open>None\<close> when the call returns, \<open>Some msg\<close> when it
  raises an exception \<^verbatim>\<open>e\<close> with \<^verbatim>\<open>str(e) = msg\<close>.
\<close>

type_synonym serial = "string \<Rightarrow> string option"

section \<open>Library functions the program calls\<close>

text \<open>\<^verbatim>\<open>str.strip()\<close>: the whitespace code points below 256.\<close>

definition py_isspace :: "char \<Rightarrow> bool" where
  "py_isspace c = (of_char c \<in> {9::nat, 10, 11, 12, 13, 28, 29, 30, 31, 32, 133, 160})"

definition strip :: "string \<Rightarrow> string" where
  "strip s = rev (dropWhile py_isspace (rev (dropWhile py_isspace s)))"

text \<open>\<^verbatim>\<open>data.keys()\<close> and \<^verbatim>\<open>data.get(key, default)\<close>: only a dict has them.\<close>

fun keys :: "pyval \<Rightarrow> pyexc + string list" where
  "keys (PDict kvs) = Inr (map fst kvs)"
| "keys _ = Inl AttributeError"

fun dict_get :: "pyval \<Rightarrow> string \<Rightarrow> pyval \<Rightarrow> pyexc + pyval" where
  "dict_get (PDict kvs) k d = Inr (case map_of kvs k of None \<Rightarrow> d | Some v \<Rightarrow> v)"
| "dict_get _ k d = Inl AttributeError"

text \<open>
  \<^verbatim>\<open>int(v)\<close>: an integer is returned as it is, a bool as 0 or 1, a finite float is
  truncated towards zero, a text goes to the library's parser, everything else raises.
\<close>

fun py_int :: "int_of_text \<Rightarrow> pyval \<Rightarrow> pyexc + int" where
  "py_int p (PInt n) = Inr n"
| "py_int p (PBool b) = Inr (if b then 1 else 0)"
| "py_int p (PFloat (Finite q)) = Inr (if 0 \<le> q then \<lfloor>q\<rfloor> else \<lceil>q\<rceil>)"
| "py_int p (PFloat NaN) = Inl ValueError"
| "py_int p (PFloat PosInf) = Inl OverflowError"
| "py_int p (PFloat NegInf) = Inl OverflowError"
| "py_int p (PStr s) = p s"
| "py_int p PNone = Inl TypeError"
| "py_int p (PList xs) = Inl TypeError"
| "py_int p (PDict kvs) = Inl TypeError"

text \<open>
  \<^verbatim>\<open>round(x, 1)\<close> on a float: the exact value is rounded to one decimal place, ties to
  the even digit, and the decimal is rounded to the nearest float by \<open>fl\<close>.
\<close>

definition round_half_even :: "rat \<Rightarrow> int" where
  "round_half_even x =
     (let f = \<lfloor>x\<rfloor>; d = x - of_int f
      in if d < 1 / 2 then f
         else if 1 / 2 < d then f + 1
         else if even f then f else f + 1)"

definition py_round1 :: "(rat \<Rightarrow> rat) \<Rightarrow> rat \<Rightarrow> rat" where
  "py_round1 fl x = fl (of_int (round_half_even (x * 10)) / 10)"

text \<open>
  The random module and the float rounding of the machine, over a generator state
  \<open>'s\<close>: \<^verbatim>\<open>random.randint(a, b)\<close>, \<^verbatim>\<open>random.uniform(a, b)\<close> and the rounding of a
  rational to a float.
\<close>

record 's runtime =
  randint :: "int \<Rightarrow> int \<Rightarrow> 's \<Rightarrow> int \<times> 's"
  uniform :: "rat \<Rightarrow> rat \<Rightarrow> 's \<Rightarrow> rat \<times> 's"
  fl :: "rat \<Rightarrow> rat"

text \<open>
  What the library documents and what rounding to nearest gives: both draws lie
  between their bounds, rounding is monotone, and the four bounds the program uses
  are floats.
\<close>

definition runtime_ok :: "'s runtime \<Rightarrow> bool" where
  "runtime_ok R \<longleftrightarrow>
     (\<forall>a b s. a \<le> b \<longrightarrow> a \<le> fst (randint R a b s) \<and> fst (randint R a b s) \<le> b) \<and>
     (\<forall>a b s. a \<le> b \<longrightarrow> a \<le> fst (uniform R a b s) \<and> fst (uniform R a b s) \<le> b) \<and>
     (\<forall>x y. x \<le> y \<longrightarrow> fl R x \<le> fl R y) \<and>
     fl R 22 = 22 \<and> fl R 30 = 30 \<and> fl R 35 = 35 \<and> fl R 70 = 70"

section \<open>Serial read thread\<close>

definition expected :: "string set" where
  "expected = {''mq'', ''soil'', ''temp'', ''hum'', ''relay''}"

abbreviation sensor_update :: "pyval \<Rightarrow> action" where
  "sensor_update data \<equiv> Emit ''sensor_update'' data"

abbreviation serial_line :: "string \<Rightarrow> action" where
  "serial_line line \<equiv> Emit ''serial_line'' (PDict [(''line'', PStr line)])"

text \<open>
  The body of the inner \<^verbatim>\<open>try\<close> of \<^verbatim>\<open>read_serial_thread\<close>: parse the line, take the
  keys of the result, and emit by the key test. Either call can raise.
\<close>

definition classify :: "json_loads \<Rightarrow> string \<Rightarrow> pyexc + action" where
  "classify loads line =
     (case loads line of
        Inl e \<Rightarrow> Inl e
      | Inr data \<Rightarrow>
          (case keys data of
             Inl e \<Rightarrow> Inl e
           | Inr ks \<Rightarrow>
               if expected \<subseteq> set ks then Inr (sensor_update data)
               else Inr (serial_line line)))"

text \<open>
  The inner \<^verbatim>\<open>try\<close> with its handler: \<^verbatim>\<open>except json.JSONDecodeError\<close> emits the line;
  any other exception leaves the block.
\<close>

definition decode :: "json_loads \<Rightarrow> string \<Rightarrow> pyexc + action" where
  "decode loads line =
     (case classify loads line of
        Inl JSONDecodeError \<Rightarrow> Inr (serial_line line)
      | Inl e \<Rightarrow> Inl e
      | Inr a \<Rightarrow> Inr a)"

text \<open>
  One pass of the \<^verbatim>\<open>while True\<close> loop. The argument is what
  \<^verbatim>\<open>ser.readline().decode("utf-8", errors="ignore")\<close> gave: a text, or the exception
  the read raised. The outer handler catches every exception and sleeps one second.
\<close>

definition read_serial_body :: "json_loads \<Rightarrow> pyexc + string \<Rightarrow> pyexc + action list" where
  "read_serial_body loads rd =
     (case rd of
        Inl e \<Rightarrow> Inl e
      | Inr raw \<Rightarrow>
          if raw = [] then Inr [Sleep 20]
          else let line = strip raw in
            if line = [] then Inr []
            else (case decode loads line of Inl e \<Rightarrow> Inl e | Inr a \<Rightarrow> Inr [a]))"

definition read_serial_iteration :: "json_loads \<Rightarrow> pyexc + string \<Rightarrow> action list" where
  "read_serial_iteration loads rd =
     (case read_serial_body loads rd of Inl e \<Rightarrow> [Sleep 1000] | Inr acts \<Rightarrow> acts)"

text \<open>
  The thread returns at once when there is no port. Otherwise it runs for ever; the
  list holds what the successive reads give, one pass of the loop each.
\<close>

fun read_serial_thread :: "json_loads \<Rightarrow> serial option \<Rightarrow> (pyexc + string) list \<Rightarrow> action list" where
  "read_serial_thread loads None reads = []"
| "read_serial_thread loads (Some port) [] = []"
| "read_serial_thread loads (Some port) (rd # reads) =
     read_serial_iteration loads rd @ read_serial_thread loads (Some port) reads"

section \<open>Fake sensor thread\<close>

text \<open>The dict built in one pass of \<^verbatim>\<open>fake_sensor_thread\<close>, left to right.\<close>

definition fake_sensor_data :: "'s runtime \<Rightarrow> 's \<Rightarrow> pyval \<times> 's" where
  "fake_sensor_data R s0 =
     (let (mq, s1) = randint R 300 700 s0;
          (soil, s2) = randint R 20 80 s1;
          (t, s3) = uniform R 22 30 s2;
          (h, s4) = uniform R 35 70 s3
      in (PDict [(''mq'', PInt mq),
                 (''soil'', PInt soil),
                 (''temp'', PFloat (Finite (py_round1 (fl R) t))),
                 (''hum'', PFloat (Finite (py_round1 (fl R) h))),
                 (''relay'', PInt 0)], s4))"

text \<open>The loop never ends; the number is how many passes are observed.\<close>

fun fake_sensor_thread :: "'s runtime \<Rightarrow> nat \<Rightarrow> 's \<Rightarrow> action list" where
  "fake_sensor_thread R 0 s = []"
| "fake_sensor_thread R (Suc n) s =
     (let (data, s') = fake_sensor_data R s
      in sensor_update data # Sleep 1000 # fake_sensor_thread R n s')"

section \<open>Socket handlers\<close>

text \<open>
  The first four lines of \<^verbatim>\<open>handle_toggle\<close> and \<^verbatim>\<open>handle_set_auto\<close>:
  \<^verbatim>\<open>int(data.get('state', 0))\<close>, and 0 when anything in it raises.
\<close>

definition read_state :: "int_of_text \<Rightarrow> pyval \<Rightarrow> int" where
  "read_state p data =
     (case dict_get data ''state'' (PInt 0) of
        Inl e \<Rightarrow> 0
      | Inr v \<Rightarrow> (case py_int p v of Inl e \<Rightarrow> 0 | Inr n \<Rightarrow> n))"

definition relay_cmd :: "int \<Rightarrow> string" where
  "relay_cmd state = ''RELAY:'' @ (if state \<noteq> 0 then ''1'' else ''0'') @ ''\<newline>''"

definition auto_cmd :: "int \<Rightarrow> string" where
  "auto_cmd state = ''AUTO:'' @ (if state \<noteq> 0 then ''1'' else ''0'') @ ''\<newline>''"

definition manual_cmd :: string where
  "manual_cmd = ''MANUAL:0\<newline>''"

definition handle_toggle :: "int_of_text \<Rightarrow> serial option \<Rightarrow> pyval \<Rightarrow> action list" where
  "handle_toggle p ser data =
     (let state = read_state p data;
          cmd = relay_cmd state
      in case ser of
           Some port \<Rightarrow>
             (case port cmd of
                None \<Rightarrow> [Write cmd, Emit ''relay_ack'' (PDict [(''sent'', PInt state)])]
              | Some msg \<Rightarrow> [Write cmd, Emit ''relay_ack'' (PDict [(''error'', PStr msg)])])
         | None \<Rightarrow>
             [Emit ''relay_ack'' (PDict [(''error'', PStr ''serial not connected''),
                                        (''would_send'', PStr (strip cmd))])])"

definition handle_set_auto :: "int_of_text \<Rightarrow> serial option \<Rightarrow> pyval \<Rightarrow> action list" where
  "handle_set_auto p ser data =
     (let state = read_state p data;
          cmd = auto_cmd state
      in case ser of
           Some port \<Rightarrow>
             (case port cmd of
                None \<Rightarrow> [Write cmd, Emit ''auto_ack'' (PDict [(''sent'', PInt state)])]
              | Some msg \<Rightarrow> [Write cmd, Emit ''auto_ack'' (PDict [(''error'', PStr msg)])])
         | None \<Rightarrow>
             [Emit ''auto_ack'' (PDict [(''error'', PStr ''serial not connected''),
                                       (''would_send'', PStr (strip cmd))])])"

definition handle_clear_manual :: "serial option \<Rightarrow> action list" where
  "handle_clear_manual ser =
     (let cmd = manual_cmd
      in case ser of
           Some port \<Rightarrow>
             (case port cmd of
                None \<Rightarrow> [Write cmd, Emit ''manual_cleared'' (PDict [(''ok'', PBool True)])]
              | Some msg \<Rightarrow> [Write cmd, Emit ''manual_cleared'' (PDict [(''error'', PStr msg)])])
         | None \<Rightarrow>
             [Emit ''manual_cleared'' (PDict [(''error'', PStr ''serial not connected''),
                                             (''would_send'', PStr (strip cmd))])])"

text \<open>The three events a client can send, and the handler registered for each.\<close>

datatype client_event = Toggle_relay pyval | Set_auto pyval | Clear_manual

fun on_event :: "int_of_text \<Rightarrow> serial option \<Rightarrow> client_event \<Rightarrow> action list" where
  "on_event p ser (Toggle_relay data) = handle_toggle p ser data"
| "on_event p ser (Set_auto data) = handle_set_auto p ser data"
| "on_event p ser Clear_manual = handle_clear_manual ser"

text \<open>The command line each handler builds, and the event it replies on.\<close>

fun command_text :: "int_of_text \<Rightarrow> client_event \<Rightarrow> string" where
  "command_text p (Toggle_relay data) = relay_cmd (read_state p data)"
| "command_text p (Set_auto data) = auto_cmd (read_state p data)"
| "command_text p Clear_manual = manual_cmd"

fun reply_event :: "client_event \<Rightarrow> string" where
  "reply_event (Toggle_relay data) = ''relay_ack''"
| "reply_event (Set_auto data) = ''auto_ack''"
| "reply_event Clear_manual = ''manual_cleared''"

section \<open>The specification's codec\<close>

text \<open>
  The command intents and the encoding table as the specification words them, to be
  compared with the command lines the handlers build.
\<close>

datatype CommandIntent = SetRelay bool | SetAuto bool | ClearManual

fun spec_encode :: "CommandIntent \<Rightarrow> string" where
  "spec_encode (SetRelay b) = (if b then ''RELAY:1\<newline>'' else ''RELAY:0\<newline>'')"
| "spec_encode (SetAuto b) = (if b then ''AUTO:1\<newline>'' else ''AUTO:0\<newline>'')"
| "spec_encode ClearManual = ''MANUAL:0\<newline>''"

fun spec_intent :: "int_of_text \<Rightarrow> client_event \<Rightarrow> CommandIntent" where
  "spec_intent p (Toggle_relay data) = SetRelay (read_state p data \<noteq> 0)"
| "spec_intent p (Set_auto data) = SetAuto (read_state p data \<noteq> 0)"
| "spec_intent p Clear_manual = ClearManual"

section \<open>Reading a trace\<close>

text \<open>The events a trace sends to the clients, in order.\<close>

fun emitted :: "action list \<Rightarrow> (string \<times> pyval) list" where
  "emitted [] = []"
| "emitted (Emit ev d # acts) = (ev, d) # emitted acts"
| "emitted (Write cmd # acts) = emitted acts"
| "emitted (Sleep ms # acts) = emitted acts"

text \<open>The texts a trace hands to \<^verbatim>\<open>ser.write\<close>, in order.\<close>

fun written :: "action list \<Rightarrow> string list" where
  "written [] = []"
| "written (Write cmd # acts) = cmd # written acts"
| "written (Emit ev d # acts) = written acts"
| "written (Sleep ms # acts) = written acts"

text \<open>
  The ranges of a simulated reading: an integer field between two bounds, and a float
  field that lies between two bounds and is the float of a decimal with one place.
\<close>

fun int_between :: "int \<Rightarrow> int \<Rightarrow> pyval option \<Rightarrow> bool" where
  "int_between lo hi (Some (PInt n)) = (lo \<le> n \<and> n \<le> hi)"
| "int_between lo hi _ = False"

fun tenth_between :: "(rat \<Rightarrow> rat) \<Rightarrow> int \<Rightarrow> int \<Rightarrow> pyval option \<Rightarrow> bool" where
  "tenth_between f lo hi (Some (PFloat (Finite t))) =
     (of_int lo \<le> t \<and> t \<le> of_int hi \<and> (\<exists>k \<in> {lo * 10 .. hi * 10}. t = f (of_int k / 10)))"
| "tenth_between f lo hi _ = False"

fun in_sim_range :: "(rat \<Rightarrow> rat) \<Rightarrow> pyval \<Rightarrow> bool" where
  "in_sim_range f (PDict kvs) =
     (map fst kvs = [''mq'', ''soil'', ''temp'', ''hum'', ''relay''] \<and>
      int_between 300 700 (map_of kvs ''mq'') \<and>
      int_between 20 80 (map_of kvs ''soil'') \<and>
      tenth_between f 22 30 (map_of kvs ''temp'') \<and>
      tenth_between f 35 70 (map_of kvs ''hum'') \<and>
      map_of kvs ''relay'' = Some (PInt 0))"
| "in_sim_range f _ = False"

section \<open>Sample surroundings\<close>

text \<open>
  Concrete ports, parsers and a concrete runtime, on which the statements below are
  evaluated. \<open>decimal_text\<close> reads a text of decimal digits. \<open>line_table\<close> parses three
  lines a device can print and rejects every other text; the two floats are the exact
  values of the doubles nearest to 26.3 and 48.1.
\<close>

definition accepting_port :: serial where
  "accepting_port cmd = None"

definition failing_port :: serial where
  "failing_port cmd = Some ''write timeout''"

fun digits_value :: "string \<Rightarrow> nat \<Rightarrow> nat option" where
  "digits_value [] acc = Some acc"
| "digits_value (c # cs) acc =
     (if 48 \<le> (of_char c :: nat) \<and> (of_char c :: nat) \<le> 57
      then digits_value cs (10 * acc + (of_char c - 48))
      else None)"

definition decimal_text :: int_of_text where
  "decimal_text s =
     (if s = [] then Inl ValueError
      else case digits_value s 0 of None \<Rightarrow> Inl ValueError | Some n \<Rightarrow> Inr (int n))"

definition reading_line :: string where
  \<open>reading_line = ''{"mq":450,"soil":55,"temp":26.3,"hum":48.1,"relay":1}''\<close>

definition reading :: pyval where
  "reading = PDict [(''mq'', PInt 450), (''soil'', PInt 55),
                    (''temp'', PFloat (Finite (7402791887490253 / 281474976710656))),
                    (''hum'', PFloat (Finite (6769473189891277 / 140737488355328))),
                    (''relay'', PInt 1)]"

definition uptime_line :: string where
  \<open>uptime_line = ''{"mq":450,"soil":55,"temp":26.3,"hum":48.1,"relay":1,"uptime":1200}''\<close>

definition uptime_reading :: pyval where
  "uptime_reading = PDict [(''mq'', PInt 450), (''soil'', PInt 55),
                    (''temp'', PFloat (Finite (7402791887490253 / 281474976710656))),
                    (''hum'', PFloat (Finite (6769473189891277 / 140737488355328))),
                    (''relay'', PInt 1), (''uptime'', PInt 1200)]"

definition line_table :: json_loads where
  "line_table s =
     (if s = reading_line then Inr reading
      else if s = uptime_line then Inr uptime_reading
      else if s = ''5'' then Inr (PInt 5)
      else Inl JSONDecodeError)"

text \<open>
  \<open>deep_line\<close> is a hundred thousand opening brackets. The parser gives up on it
  with \<open>RecursionError\<close>, which is not a \<open>JSONDecodeError\<close>; \<open>deep_table\<close> is
  \<open>line_table\<close> with that answer added.
\<close>

definition deep_line :: string where
  "deep_line = replicate 100000 (CHR ''['')"

definition deep_table :: json_loads where
  "deep_table s = (if s = deep_line then Inl RecursionError else line_table s)"

definition sample_runtime :: "nat runtime" where
  "sample_runtime =
     \<lparr> randint = (\<lambda>a b s. (a + int (s mod nat (b - a + 1)), s + 7)),
       uniform = (\<lambda>a b s. (a + (b - a) * (of_nat (s mod 1000) / 1000), s + 3)),
       fl = (\<lambda>x. of_int \<lfloor>x * 1024\<rfloor> / 1024) \<rparr>"

section \<open>Unfolding the program\<close>

lemmas handler_defs = handle_toggle_def handle_set_auto_def handle_clear_manual_def Let_def

lemmas cmd_defs = relay_cmd_def auto_cmd_def manual_cmd_def

lemmas read_defs = read_serial_iteration_def read_serial_body_def decode_def classify_def

lemma strip_nonempty: "strip raw \<noteq> [] \<Longrightarrow> raw \<noteq> []"
  by (auto simp: strip_def)

lemma strip_reading_line: "strip (reading_line @ ''\<newline>'') = reading_line"
  by (simp add: strip_def reading_line_def py_isspace_def)

lemma strip_uptime_line: "strip (uptime_line @ ''\<newline>'') = uptime_line"
  by (simp add: strip_def uptime_line_def py_isspace_def)

lemma strip_hello: "strip ''hello world\<newline>'' = ''hello world''"
  by (simp add: strip_def py_isspace_def)

lemma strip_line:
  assumes "xs \<noteq> []" and "\<not> py_isspace (hd xs)" and "\<not> py_isspace (last xs)"
  shows "strip (xs @ ''\<newline>'') = xs"
proof -
  have nl: "py_isspace (CHR 0x0A)"
    by (simp add: py_isspace_def)
  from assms(1) obtain x xs' where xs: "xs = x # xs'"
    by (cases xs) simp_all
  with assms(2) have front: "dropWhile py_isspace (xs @ ''\<newline>'') = xs @ ''\<newline>''"
    by simp
  from assms(1) have "rev xs \<noteq> []"
    by simp
  then obtain y ys where r: "rev xs = y # ys"
    by (cases "rev xs") simp_all
  from assms(1) have "hd (rev xs) = last xs"
    by (simp add: hd_rev)
  with r assms(3) have "\<not> py_isspace y"
    by simp
  with r have rear: "dropWhile py_isspace (rev xs) = rev xs"
    by simp
  have "rev (xs @ ''\<newline>'') = CHR 0x0A # rev xs"
    by simp
  with nl rear have "dropWhile py_isspace (rev (xs @ ''\<newline>'')) = rev xs"
    by simp
  with front show ?thesis
    by (simp add: strip_def)
qed

lemma strip_replicate:
  assumes "0 < n" and "\<not> py_isspace c"
  shows "strip (replicate n c @ ''\<newline>'') = replicate n c"
proof (rule strip_line)
  from assms(1) show "replicate n c \<noteq> []"
    by simp
  from assms show "\<not> py_isspace (hd (replicate n c))"
    by simp
  from assms show "\<not> py_isspace (last (replicate n c))"
    by simp
qed

lemma replicate_nonempty: "0 < n \<Longrightarrow> replicate n c \<noteq> []"
  by simp

lemma strip_deep_line: "strip (deep_line @ ''\<newline>'') = deep_line"
  unfolding deep_line_def
  by (rule strip_replicate) (simp_all add: py_isspace_def)

lemma deep_line_nonempty: "deep_line \<noteq> []"
  unfolding deep_line_def
  by (rule replicate_nonempty) simp

lemma other_parse_failure_dropped:
  assumes "strip raw = line" and "line \<noteq> []"
    and "loads line = Inl e" and "e \<noteq> JSONDecodeError"
  shows "decode loads line = Inl e \<and> read_serial_iteration loads (Inr raw) = [Sleep 1000]"
proof -
  from assms(1,2) have raw: "raw \<noteq> []"
    using strip_nonempty by blast
  from assms(3,4) have d: "decode loads line = Inl e"
    by (cases e) (simp_all add: decode_def classify_def)
  with assms(1,2) raw show ?thesis
    by (simp add: read_serial_iteration_def read_serial_body_def)
qed

lemma floor_half: "\<lfloor>(1 / 2 :: rat)\<rfloor> = 0"
  by (rule floor_unique) simp_all

lemma floor_2_7: "\<lfloor>(27 / 10 :: rat)\<rfloor> = 2"
  by (rule floor_unique) simp_all

lemma ceiling_minus_2_7: "\<lceil>(- (27 / 10) :: rat)\<rceil> = - 2"
  by (rule ceiling_unique) simp_all

lemma decode_non_object:
  "loads line = Inr d \<Longrightarrow> keys d = Inl e \<Longrightarrow> decode loads line = Inl AttributeError"
  by (cases d) (simp_all add: decode_def classify_def)

section \<open>Decoding serial lines\<close>

text \<open>
  The lines the inner \<^verbatim>\<open>try\<close> handles. A line that \<^verbatim>\<open>json.loads\<close> parses to an object
  with the five keys \<open>mq\<close>, \<open>soil\<close>, \<open>temp\<close>, \<open>hum\<close> and \<open>relay\<close> is emitted as
  \<open>sensor_update\<close>, and the payload is the parsed object itself. An object that lacks
  one of the keys, and a line on which \<^verbatim>\<open>json.loads\<close> raises \<open>JSONDecodeError\<close>, are
  emitted as \<open>serial_line\<close> with the stripped text of the line, unchanged.
\<close>

theorem line_classified:
  assumes "strip raw = line" and "line \<noteq> []"
  shows "(loads line = Inr (PDict kvs) \<and> expected \<subseteq> set (map fst kvs) \<longrightarrow>
            decode loads line = Inr (sensor_update (PDict kvs)) \<and>
            read_serial_iteration loads (Inr raw) = [sensor_update (PDict kvs)]) \<and>
         (loads line = Inr (PDict kvs) \<and> \<not> expected \<subseteq> set (map fst kvs) \<longrightarrow>
            decode loads line = Inr (serial_line line) \<and>
            read_serial_iteration loads (Inr raw) = [serial_line line]) \<and>
         (loads line = Inl JSONDecodeError \<longrightarrow>
            decode loads line = Inr (serial_line line) \<and>
            read_serial_iteration loads (Inr raw) = [serial_line line])"
proof -
  from assms have raw: "raw \<noteq> []"
    using strip_nonempty by blast
  show ?thesis
    using assms raw by (auto simp: read_defs)
qed

theorem line_classified_witness:
  "strip (reading_line @ ''\<newline>'') = reading_line \<and> reading_line \<noteq> [] \<and>
   line_table reading_line = Inr reading \<and>
   read_serial_iteration line_table (Inr (reading_line @ ''\<newline>'')) = [sensor_update reading] \<and>
   strip ''hello world\<newline>'' = ''hello world'' \<and>
   line_table ''hello world'' = Inl JSONDecodeError \<and>
   read_serial_iteration line_table (Inr ''hello world\<newline>'') = [serial_line ''hello world'']"
proof -
  have ne: "reading_line \<noteq> []"
    by (simp add: reading_line_def)
  have t1: "line_table reading_line = Inr reading"
    by (simp add: line_table_def)
  have k1: "expected \<subseteq> set (map fst [(''mq'', PInt 450), (''soil'', PInt 55),
                    (''temp'', PFloat (Finite (7402791887490253 / 281474976710656))),
                    (''hum'', PFloat (Finite (6769473189891277 / 140737488355328))),
                    (''relay'', PInt 1)])"
    by (simp add: expected_def)
  have t2: "line_table ''hello world'' = Inl JSONDecodeError"
    by (simp add: line_table_def reading_line_def uptime_line_def)
  have ne2: "''hello world'' \<noteq> []"
    by simp
  from line_classified [OF strip_reading_line ne, of line_table] t1 k1
  have a: "read_serial_iteration line_table (Inr (reading_line @ ''\<newline>'')) = [sensor_update reading]"
    by (simp add: reading_def)
  from line_classified [OF strip_hello ne2, of line_table] t2
  have b: "read_serial_iteration line_table (Inr ''hello world\<newline>'') = [serial_line ''hello world'']"
    by simp
  from a b ne t1 t2 strip_reading_line strip_hello show ?thesis
    by simp
qed

text \<open>
  C1. The handler of the inner \<^verbatim>\<open>try\<close> names \<open>JSONDecodeError\<close> only. A line that
  fails to parse with another exception is not emitted as \<open>serial_line\<close>: for the
  line of a hundred thousand opening brackets the parser raises \<open>RecursionError\<close>,
  the exception leaves the inner \<^verbatim>\<open>try\<close>, and the pass of the loop ends in the outer
  handler with one second of sleep and no event for the clients.
\<close>

theorem deep_line_dropped:
  "deep_table deep_line = Inl RecursionError \<and>
   decode deep_table deep_line = Inl RecursionError \<and>
   read_serial_iteration deep_table (Inr (deep_line @ ''\<newline>'')) = [Sleep 1000] \<and>
   emitted (read_serial_thread deep_table (Some accepting_port) [Inr (deep_line @ ''\<newline>'')]) = []"
proof -
  have t: "deep_table deep_line = Inl RecursionError"
    by (simp add: deep_table_def)
  have ne: "RecursionError \<noteq> JSONDecodeError"
    by simp
  note d = other_parse_failure_dropped [where loads = deep_table and line = deep_line
      and raw = "deep_line @ ''\<newline>''" and e = RecursionError,
      OF strip_deep_line deep_line_nonempty t ne]
  from d have "emitted (read_serial_thread deep_table (Some accepting_port)
      [Inr (deep_line @ ''\<newline>'')]) = []"
    by simp
  with t d show ?thesis
    by simp
qed

text \<open>
  C9. A line that parses to an object with the five keys and at least one more is
  emitted as \<open>sensor_update\<close>, not as \<open>serial_line\<close>, and the payload is the whole
  object, the extra entries included.
\<close>

theorem extra_keys_forwarded:
  assumes "strip raw = line" and "line \<noteq> []"
    and "loads line = Inr (PDict kvs)" and "expected \<subset> set (map fst kvs)"
  shows "read_serial_iteration loads (Inr raw) = [sensor_update (PDict kvs)] \<and>
         emitted (read_serial_iteration loads (Inr raw)) = [(''sensor_update'', PDict kvs)] \<and>
         (\<exists>k v. (k, v) \<in> set kvs \<and> k \<notin> expected)"
proof -
  from assms have raw: "raw \<noteq> []"
    using strip_nonempty by blast
  from assms(4) have sub: "expected \<subseteq> set (map fst kvs)"
    by auto
  from assms(4) obtain k where "k \<in> set (map fst kvs)" "k \<notin> expected"
    by auto
  then have ex: "\<exists>k v. (k, v) \<in> set kvs \<and> k \<notin> expected"
    by auto
  have "read_serial_iteration loads (Inr raw) = [sensor_update (PDict kvs)]"
    using assms(1-3) raw sub by (simp add: read_defs)
  with ex show ?thesis
    by simp
qed

theorem extra_keys_forwarded_witness:
  "strip (uptime_line @ ''\<newline>'') = uptime_line \<and> uptime_line \<noteq> [] \<and>
   line_table uptime_line = Inr uptime_reading \<and>
   read_serial_iteration line_table (Inr (uptime_line @ ''\<newline>'')) = [sensor_update uptime_reading] \<and>
   keys uptime_reading = Inr [''mq'', ''soil'', ''temp'', ''hum'', ''relay'', ''uptime'']"
proof -
  let ?kvs = "[(''mq'', PInt 450), (''soil'', PInt 55),
           (''temp'', PFloat (Finite (7402791887490253 / 281474976710656))),
           (''hum'', PFloat (Finite (6769473189891277 / 140737488355328))),
           (''relay'', PInt 1), (''uptime'', PInt 1200)]"
  have ne: "uptime_line \<noteq> []"
    by (simp add: uptime_line_def)
  have t: "line_table uptime_line = Inr (PDict ?kvs)"
    by (simp add: line_table_def uptime_reading_def uptime_line_def reading_line_def)
  have sub: "expected \<subseteq> set (map fst ?kvs)"
    by (simp add: expected_def)
  have mem: "''uptime'' \<in> set (map fst ?kvs)"
    by simp
  have ni: "''uptime'' \<notin> expected"
    by (simp add: expected_def)
  have ne': "expected \<noteq> set (map fst ?kvs)"
  proof
    assume eq: "expected = set (map fst ?kvs)"
    from mem have "''uptime'' \<in> expected"
      unfolding eq .
    with ni show False ..
  qed
  from sub ne' have k: "expected \<subset> set (map fst ?kvs)"
    by (rule psubsetI)
  have u: "uptime_reading = PDict ?kvs"
    by (simp add: uptime_reading_def)
  have "read_serial_iteration line_table (Inr (uptime_line @ ''\<newline>'')) =
          [sensor_update (PDict ?kvs)]"
    using extra_keys_forwarded [where loads = line_table and raw = "uptime_line @ ''\<newline>''"
        and line = uptime_line and kvs = ?kvs, OF strip_uptime_line ne t k]
    by (rule conjunct1)
  with ne t strip_uptime_line show ?thesis
    unfolding u by simp
qed

text \<open>
  C3. A line that parses to a value that is not an object has no \<^verbatim>\<open>keys\<close>: the
  inner \<^verbatim>\<open>try\<close> is left with \<open>AttributeError\<close>, which its handler does not catch.
  For the line \<open>5\<close> the pass of the loop ends in the outer handler: one second of
  sleep and no event for the clients.
\<close>

theorem bare_number_line_dropped:
  "line_table ''5'' = Inr (PInt 5) \<and>
   decode line_table ''5'' = Inl AttributeError \<and>
   read_serial_iteration line_table (Inr ''5\<newline>'') = [Sleep 1000] \<and>
   emitted (read_serial_thread line_table (Some accepting_port) [Inr ''5\<newline>'']) = []"
  by (simp add: read_defs line_table_def reading_line_def uptime_line_def strip_def py_isspace_def)

section \<open>Simulated readings\<close>

lemma round_half_even_between:
  assumes "of_int a \<le> x" and "x \<le> of_int b"
  shows "a \<le> round_half_even x \<and> round_half_even x \<le> b"
proof -
  have f1: "a \<le> \<lfloor>x\<rfloor>"
    using assms(1) by (simp add: le_floor_iff)
  have lower: "\<lfloor>x\<rfloor> \<le> round_half_even x"
    by (simp add: round_half_even_def Let_def)
  have upper: "round_half_even x \<le> b"
  proof (cases "x = of_int \<lfloor>x\<rfloor>")
    case True
    then have "x - of_int \<lfloor>x\<rfloor> = 0"
      by simp
    then have "round_half_even x = \<lfloor>x\<rfloor>"
      by (simp add: round_half_even_def Let_def)
    moreover have "\<lfloor>x\<rfloor> \<le> b"
      using assms(2) by (simp add: floor_le_iff)
    ultimately show ?thesis
      by simp
  next
    case False
    have lt: "of_int \<lfloor>x\<rfloor> < x"
    proof (rule le_neq_trans)
      show "of_int \<lfloor>x\<rfloor> \<le> x"
        by (rule of_int_floor_le)
      show "of_int \<lfloor>x\<rfloor> \<noteq> x"
        using False by (rule not_sym)
    qed
    from lt assms(2) have "(of_int \<lfloor>x\<rfloor> :: rat) < of_int b"
      by (rule less_le_trans)
    then have "\<lfloor>x\<rfloor> < b"
      by (simp only: of_int_less_iff)
    moreover have "round_half_even x \<le> \<lfloor>x\<rfloor> + 1"
      by (simp add: round_half_even_def Let_def)
    ultimately show ?thesis
      by simp
  qed
  from f1 lower upper show ?thesis
    by simp
qed

lemma py_round1_between:
  assumes mono: "\<forall>x y. x \<le> y \<longrightarrow> f x \<le> f y"
    and lo: "f (of_int lo) = of_int lo" and hi: "f (of_int hi) = of_int hi"
    and x: "of_int lo \<le> x" "x \<le> of_int hi"
  shows "tenth_between f lo hi (Some (PFloat (Finite (py_round1 f x))))"
proof -
  define k where "k = round_half_even (x * 10)"
  have "of_int (lo * 10) \<le> x * 10" and "x * 10 \<le> of_int (hi * 10)"
    using x by simp_all
  then have k: "lo * 10 \<le> k" "k \<le> hi * 10"
    unfolding k_def using round_half_even_between by blast+
  have r: "py_round1 f x = f (of_int k / 10)"
    by (simp add: py_round1_def k_def)
  have "(of_int lo :: rat) \<le> of_int k / 10"
  proof -
    have "(of_int (lo * 10) :: rat) \<le> of_int k"
      using k(1) by (simp only: of_int_le_iff)
    then show ?thesis by simp
  qed
  with mono have "f (of_int lo) \<le> f (of_int k / 10)"
    by blast
  with lo have b1: "of_int lo \<le> f (of_int k / 10)"
    by simp
  have "of_int k / 10 \<le> (of_int hi :: rat)"
  proof -
    have "(of_int k :: rat) \<le> of_int (hi * 10)"
      using k(2) by (simp only: of_int_le_iff)
    then show ?thesis by simp
  qed
  with mono have "f (of_int k / 10) \<le> f (of_int hi)"
    by blast
  with hi have b2: "f (of_int k / 10) \<le> of_int hi"
    by simp
  from k have "k \<in> {lo * 10 .. hi * 10}"
    by simp
  with r b1 b2 show ?thesis
    by auto
qed

lemma fake_sensor_data_in_range:
  assumes "runtime_ok R"
  shows "in_sim_range (fl R) (fst (fake_sensor_data R s))"
proof -
  obtain mq s1 where d1: "randint R 300 700 s = (mq, s1)"
    by (cases "randint R 300 700 s")
  obtain soil s2 where d2: "randint R 20 80 s1 = (soil, s2)"
    by (cases "randint R 20 80 s1")
  obtain t s3 where d3: "uniform R 22 30 s2 = (t, s3)"
    by (cases "uniform R 22 30 s2")
  obtain h s4 where d4: "uniform R 35 70 s3 = (h, s4)"
    by (cases "uniform R 35 70 s3")
  from assms have ri: "\<And>a b s. a \<le> b \<Longrightarrow> a \<le> fst (randint R a b s) \<and> fst (randint R a b s) \<le> b"
    and un: "\<And>a b s. a \<le> b \<Longrightarrow> a \<le> fst (uniform R a b s) \<and> fst (uniform R a b s) \<le> b"
    and mono: "\<forall>x y. x \<le> y \<longrightarrow> fl R x \<le> fl R y"
    and fp: "fl R 22 = 22" "fl R 30 = 30" "fl R 35 = 35" "fl R 70 = 70"
    by (simp_all add: runtime_ok_def)
  from ri [of 300 700 s] d1 have mq: "300 \<le> mq" "mq \<le> 700"
    by simp_all
  from ri [of 20 80 s1] d2 have soil: "20 \<le> soil" "soil \<le> 80"
    by simp_all
  from un [of 22 30 s2] d3 have t: "of_int 22 \<le> t" "t \<le> of_int 30"
    by simp_all
  from un [of 35 70 s3] d4 have h: "of_int 35 \<le> h" "h \<le> of_int 70"
    by simp_all
  have tt: "tenth_between (fl R) 22 30 (Some (PFloat (Finite (py_round1 (fl R) t))))"
    using py_round1_between [OF mono _ _ t] fp by simp
  have hh: "tenth_between (fl R) 35 70 (Some (PFloat (Finite (py_round1 (fl R) h))))"
    using py_round1_between [OF mono _ _ h] fp by simp
  have "fst (fake_sensor_data R s) =
      PDict [(''mq'', PInt mq), (''soil'', PInt soil),
             (''temp'', PFloat (Finite (py_round1 (fl R) t))),
             (''hum'', PFloat (Finite (py_round1 (fl R) h))), (''relay'', PInt 0)]"
    by (simp add: fake_sensor_data_def d1 d2 d3 d4)
  with mq soil tt hh show ?thesis
    by simp
qed

text \<open>
  C5. With no serial port the fake sensor thread emits one \<open>sensor_update\<close> in every
  pass, and in each of them \<open>mq\<close> is an integer from 300 to 700, \<open>soil\<close> an integer
  from 20 to 80, \<open>temp\<close> a float from 22 to 30 and \<open>hum\<close> a float from 35 to 70, each
  the float of a decimal with one place, and \<open>relay\<close> is 0. This holds from every
  state of the generator, for any generator whose draws lie between their bounds and
  any monotone rounding to floats that keeps 22, 30, 35 and 70.
\<close>

theorem simulated_in_range:
  assumes "runtime_ok R"
  shows "length (emitted (fake_sensor_thread R n s)) = n \<and>
         (\<forall>(ev, d) \<in> set (emitted (fake_sensor_thread R n s)).
            ev = ''sensor_update'' \<and> in_sim_range (fl R) d)"
proof (induction n arbitrary: s)
  case 0
  show ?case
    by simp
next
  case (Suc n)
  obtain d s' where step: "fake_sensor_data R s = (d, s')"
    by (cases "fake_sensor_data R s")
  from fake_sensor_data_in_range [OF assms, of s] step have "in_sim_range (fl R) d"
    by simp
  with Suc [of s'] step show ?case
    by simp
qed


text \<open>A sample generator that meets the conditions, and its first reading.\<close>

lemma sample_randint:
  assumes "a \<le> b"
  shows "a \<le> fst (randint sample_runtime a b s) \<and> fst (randint sample_runtime a b s) \<le> b"
proof -
  from assms have pos: "0 < nat (b - a + 1)"
    by simp
  then have "s mod nat (b - a + 1) < nat (b - a + 1)"
    by simp
  with assms have "a \<le> a + int (s mod nat (b - a + 1)) \<and> a + int (s mod nat (b - a + 1)) \<le> b"
    by linarith
  then show ?thesis
    by (simp add: sample_runtime_def)
qed

lemma sample_uniform:
  assumes "a \<le> b"
  shows "a \<le> fst (uniform sample_runtime a b s) \<and> fst (uniform sample_runtime a b s) \<le> b"
proof -
  have "s mod 1000 \<le> 1000"
    by simp
  then have "(of_nat (s mod 1000) :: rat) \<le> of_nat 1000"
    by (simp only: of_nat_le_iff)
  then have q1: "(of_nat (s mod 1000) / 1000 :: rat) \<le> 1"
    by simp
  have q0: "0 \<le> (of_nat (s mod 1000) / 1000 :: rat)"
    by simp
  from assms have d: "0 \<le> b - a"
    by simp
  from d q0 have lo: "0 \<le> (b - a) * (of_nat (s mod 1000) / 1000)"
    by (rule mult_nonneg_nonneg)
  from q1 d have hi: "(b - a) * (of_nat (s mod 1000) / 1000) \<le> b - a"
    by (rule mult_left_le)
  from lo hi have "a \<le> a + (b - a) * (of_nat (s mod 1000) / 1000) \<and>
      a + (b - a) * (of_nat (s mod 1000) / 1000) \<le> b"
    by linarith
  then show ?thesis
    by (simp add: sample_runtime_def)
qed

lemma sample_fl_mono:
  assumes "x \<le> y"
  shows "fl sample_runtime x \<le> fl sample_runtime y"
proof -
  from assms have "x * 1024 \<le> y * 1024"
    by simp
  then have "\<lfloor>x * 1024\<rfloor> \<le> \<lfloor>y * 1024\<rfloor>"
    by (rule floor_mono)
  then have "(of_int \<lfloor>x * 1024\<rfloor> :: rat) \<le> of_int \<lfloor>y * 1024\<rfloor>"
    by (simp only: of_int_le_iff)
  then have "of_int \<lfloor>x * 1024\<rfloor> / 1024 \<le> (of_int \<lfloor>y * 1024\<rfloor> / 1024 :: rat)"
    by simp
  then show ?thesis
    by (simp add: sample_runtime_def)
qed

lemma sample_fl_fixed:
  "fl sample_runtime 22 = 22 \<and> fl sample_runtime 30 = 30 \<and>
   fl sample_runtime 35 = 35 \<and> fl sample_runtime 70 = 70"
  by (simp add: sample_runtime_def)

lemma sample_runtime_ok: "runtime_ok sample_runtime"
proof -
  have 1: "\<forall>a b s. a \<le> b \<longrightarrow>
      a \<le> fst (randint sample_runtime a b s) \<and> fst (randint sample_runtime a b s) \<le> b"
    by (intro allI impI) (erule sample_randint)
  have 2: "\<forall>a b s. a \<le> b \<longrightarrow>
      a \<le> fst (uniform sample_runtime a b s) \<and> fst (uniform sample_runtime a b s) \<le> b"
    by (intro allI impI) (erule sample_uniform)
  have 3: "\<forall>x y. x \<le> y \<longrightarrow> fl sample_runtime x \<le> fl sample_runtime y"
    by (intro allI impI) (erule sample_fl_mono)
  show ?thesis
    unfolding runtime_ok_def
    by (rule conjI [OF 1 conjI [OF 2 conjI [OF 3 sample_fl_fixed]]])
qed

lemma sample_draws:
  "randint sample_runtime 300 700 5 = (305, 12)"
  "randint sample_runtime 20 80 12 = (32, 19)"
  "uniform sample_runtime 22 30 19 = (2769 / 125, 22)"
  "uniform sample_runtime 35 70 22 = (3577 / 100, 25)"
  by (simp_all add: sample_runtime_def)

lemma sample_fl_floor:
  assumes "of_int z \<le> x * 1024" and "x * 1024 < of_int z + 1"
  shows "fl sample_runtime x = of_int z / 1024"
proof -
  from assms have "\<lfloor>x * 1024\<rfloor> = z"
    by (rule floor_unique)
  then show ?thesis
    by (simp add: sample_runtime_def)
qed

lemma round_half_even_up:
  assumes "of_int z + 1 / 2 < x" and "x < of_int z + 1"
  shows "round_half_even x = z + 1"
proof -
  from assms(1) have "of_int z \<le> x"
    by simp
  from this assms(2) have f: "\<lfloor>x\<rfloor> = z"
    by (rule floor_unique)
  from assms(1) have "\<not> x - of_int z < 1 / 2" and "1 / 2 < x - of_int z"
    by simp_all
  then show ?thesis
    unfolding round_half_even_def Let_def f by simp
qed

lemma sample_temp: "py_round1 (fl sample_runtime) (2769 / 125) = 5683 / 256"
proof -
  have "round_half_even (2769 / 125 * 10) = 221 + 1"
    by (rule round_half_even_up) simp_all
  then have r: "round_half_even (2769 / 125 * 10) = 222"
    by simp
  have "fl sample_runtime (of_int 222 / 10) = of_int 22732 / 1024"
    by (rule sample_fl_floor) simp_all
  then show ?thesis
    unfolding py_round1_def r by simp
qed

lemma sample_hum: "py_round1 (fl sample_runtime) (3577 / 100) = 36659 / 1024"
proof -
  have "round_half_even (3577 / 100 * 10) = 357 + 1"
    by (rule round_half_even_up) simp_all
  then have r: "round_half_even (3577 / 100 * 10) = 358"
    by simp
  have "fl sample_runtime (of_int 358 / 10) = of_int 36659 / 1024"
    by (rule sample_fl_floor) simp_all
  then show ?thesis
    unfolding py_round1_def r by simp
qed

lemma sample_step:
  "fake_sensor_data sample_runtime 5 =
     (PDict [(''mq'', PInt 305), (''soil'', PInt 32),
             (''temp'', PFloat (Finite (5683 / 256))),
             (''hum'', PFloat (Finite (36659 / 1024))), (''relay'', PInt 0)], 25)"
  by (simp add: fake_sensor_data_def sample_draws sample_temp sample_hum)

lemma sample_trace:
  "fake_sensor_thread sample_runtime 1 5 =
     [sensor_update (PDict [(''mq'', PInt 305), (''soil'', PInt 32),
             (''temp'', PFloat (Finite (5683 / 256))),
             (''hum'', PFloat (Finite (36659 / 1024))), (''relay'', PInt 0)]),
      Sleep 1000]"
  by (simp add: sample_step)

theorem simulated_in_range_witness:
  "runtime_ok sample_runtime \<and>
   fake_sensor_thread sample_runtime 1 5 =
     [sensor_update (PDict [(''mq'', PInt 305), (''soil'', PInt 32),
             (''temp'', PFloat (Finite (5683 / 256))),
             (''hum'', PFloat (Finite (36659 / 1024))), (''relay'', PInt 0)]),
      Sleep 1000] \<and>
   in_sim_range (fl sample_runtime)
     (PDict [(''mq'', PInt 305), (''soil'', PInt 32),
             (''temp'', PFloat (Finite (5683 / 256))),
             (''hum'', PFloat (Finite (36659 / 1024))), (''relay'', PInt 0)])"
proof -
  let ?d = "PDict [(''mq'', PInt 305), (''soil'', PInt 32),
             (''temp'', PFloat (Finite (5683 / 256))),
             (''hum'', PFloat (Finite (36659 / 1024))), (''relay'', PInt 0)]"
  have e: "emitted (fake_sensor_thread sample_runtime 1 5) = [(''sensor_update'', ?d)]"
    unfolding sample_trace by simp
  from simulated_in_range [OF sample_runtime_ok, of 1 5]
  have "\<forall>(ev, d) \<in> set (emitted (fake_sensor_thread sample_runtime 1 5)).
          ev = ''sensor_update'' \<and> in_sim_range (fl sample_runtime) d"
    by (rule conjunct2)
  then have "in_sim_range (fl sample_runtime) ?d"
    unfolding e by simp
  with sample_runtime_ok sample_trace show ?thesis
    by (intro conjI)
qed

section \<open>Command encoding\<close>

text \<open>
  C4. The command line a handler builds is the specification's encoding of the intent:
  \<open>RELAY:1\<close> or \<open>RELAY:0\<close> with a newline for the relay, by whether the state is
  non-zero, \<open>AUTO:1\<close> or \<open>AUTO:0\<close> for the automatic mode, and \<open>MANUAL:0\<close> for the
  clearing of the manual override. The encoding has no failure case.
\<close>

theorem encode_table:
  "relay_cmd state = spec_encode (SetRelay (state \<noteq> 0)) \<and>
   auto_cmd state = spec_encode (SetAuto (state \<noteq> 0)) \<and>
   manual_cmd = spec_encode ClearManual \<and>
   command_text p ev = spec_encode (spec_intent p ev) \<and>
   relay_cmd 1 = ''RELAY:1\<newline>'' \<and> relay_cmd 0 = ''RELAY:0\<newline>'' \<and>
   auto_cmd 1 = ''AUTO:1\<newline>'' \<and> auto_cmd 0 = ''AUTO:0\<newline>'' \<and>
   manual_cmd = ''MANUAL:0\<newline>''"
  by (cases ev) (simp_all add: relay_cmd_def auto_cmd_def manual_cmd_def)

section \<open>Replies to commands\<close>

text \<open>
  C2. With no serial port, each of the three handlers writes nothing and sends one
  reply on its own event: the error \<open>serial not connected\<close>, and under \<open>would_send\<close>
  the command line stripped, that is, the command line without its final newline.
\<close>

theorem disconnected_reply:
  "on_event p None ev =
     [Emit (reply_event ev)
        (PDict [(''error'', PStr ''serial not connected''),
                (''would_send'', PStr (strip (command_text p ev)))])] \<and>
   written (on_event p None ev) = [] \<and>
   strip (command_text p ev) @ ''\<newline>'' = command_text p ev"
  by (cases ev) (simp_all add: handler_defs strip_def cmd_defs py_isspace_def)

text \<open>
  For \<open>toggle_relay\<close> with state 1 the reply holds \<open>RELAY:1\<close>, not the line
  \<open>RELAY:1\<close> with its newline that would have been written.
\<close>

theorem disconnected_reply_counterexample:
  "on_event decimal_text None (Toggle_relay (PDict [(''state'', PInt 1)])) =
     [Emit ''relay_ack'' (PDict [(''error'', PStr ''serial not connected''),
                                 (''would_send'', PStr ''RELAY:1'')])] \<and>
   on_event decimal_text None (Toggle_relay (PDict [(''state'', PInt 1)])) \<noteq>
     [Emit ''relay_ack'' (PDict [(''error'', PStr ''serial not connected''),
                                 (''would_send'', PStr ''RELAY:1\<newline>'')])]"
  by (simp add: handler_defs read_state_def strip_def cmd_defs py_isspace_def)

text \<open>
  C6. A failure reply always carries a reason under \<open>error\<close>. With no serial port it
  also carries the stripped command line under \<open>would_send\<close>. After a write that
  raised, the reply carries the text of the exception and nothing else.
\<close>

theorem failure_reply:
  "(ser = None \<longrightarrow>
      on_event p ser ev =
        [Emit (reply_event ev)
           (PDict [(''error'', PStr ''serial not connected''),
                   (''would_send'', PStr (strip (command_text p ev)))])]) \<and>
   (ser = Some port \<and> port (command_text p ev) = Some msg \<longrightarrow>
      on_event p ser ev =
        [Write (command_text p ev), Emit (reply_event ev) (PDict [(''error'', PStr msg)])])"
  by (cases ev) (simp_all add: handler_defs)

theorem failure_reply_witness:
  "on_event decimal_text None Clear_manual =
     [Emit ''manual_cleared'' (PDict [(''error'', PStr ''serial not connected''),
                                      (''would_send'', PStr ''MANUAL:0'')])] \<and>
   failing_port (command_text decimal_text (Set_auto (PDict [(''state'', PInt 1)]))) =
     Some ''write timeout'' \<and>
   on_event decimal_text (Some failing_port) (Set_auto (PDict [(''state'', PInt 1)])) =
     [Write ''AUTO:1\<newline>'', Emit ''auto_ack'' (PDict [(''error'', PStr ''write timeout'')])]"
  using failure_reply [where ser = None and p = decimal_text and ev = Clear_manual]
    failure_reply [where ser = "Some failing_port" and port = failing_port and p = decimal_text
      and ev = "Set_auto (PDict [(''state'', PInt 1)])" and msg = "''write timeout''"]
  by (simp add: failing_port_def cmd_defs read_state_def strip_def py_isspace_def)

text \<open>
  The reply to \<open>toggle_relay\<close> after a failed write has an \<open>error\<close> entry and no
  \<open>would_send\<close> entry.
\<close>

theorem failure_reply_counterexample:
  "on_event decimal_text (Some failing_port) (Toggle_relay (PDict [(''state'', PInt 1)])) =
     [Write ''RELAY:1\<newline>'', Emit ''relay_ack'' (PDict [(''error'', PStr ''write timeout'')])] \<and>
   map_of [(''error'', PStr ''write timeout'')] ''would_send'' = None"
  by (simp add: handler_defs read_state_def cmd_defs failing_port_def)

text \<open>
  C7. With a serial port whose write returns, a handler writes the encoded command
  line and then acknowledges. \<open>relay_ack\<close> and \<open>auto_ack\<close> carry under \<open>sent\<close> the
  integer read from the payload, which is the applied state when it is 0 or 1;
  \<open>manual_cleared\<close> carries \<open>ok\<close>. For \<open>toggle_relay\<close> with state 0 the reply is
  \<open>sent: 0\<close>.
\<close>

theorem connected_ack:
  "(port (relay_cmd (read_state p data)) = None \<longrightarrow>
      handle_toggle p (Some port) data =
        [Write (spec_encode (SetRelay (read_state p data \<noteq> 0))),
         Emit ''relay_ack'' (PDict [(''sent'', PInt (read_state p data))])]) \<and>
   (port (auto_cmd (read_state p data)) = None \<longrightarrow>
      handle_set_auto p (Some port) data =
        [Write (spec_encode (SetAuto (read_state p data \<noteq> 0))),
         Emit ''auto_ack'' (PDict [(''sent'', PInt (read_state p data))])]) \<and>
   (port manual_cmd = None \<longrightarrow>
      handle_clear_manual (Some port) =
        [Write (spec_encode ClearManual), Emit ''manual_cleared'' (PDict [(''ok'', PBool True)])]) \<and>
   (read_state p data = 0 \<or> read_state p data = 1 \<longrightarrow>
      PInt (read_state p data) = PInt (if read_state p data \<noteq> 0 then 1 else 0))"
  by (auto simp: handler_defs cmd_defs)

theorem connected_ack_witness:
  "accepting_port (relay_cmd (read_state decimal_text (PDict [(''state'', PInt 0)]))) = None \<and>
   handle_toggle decimal_text (Some accepting_port) (PDict [(''state'', PInt 0)]) =
     [Write ''RELAY:0\<newline>'', Emit ''relay_ack'' (PDict [(''sent'', PInt 0)])] \<and>
   handle_set_auto decimal_text (Some accepting_port) (PDict [(''state'', PInt 0)]) =
     [Write ''AUTO:0\<newline>'', Emit ''auto_ack'' (PDict [(''sent'', PInt 0)])] \<and>
   handle_clear_manual (Some accepting_port) =
     [Write ''MANUAL:0\<newline>'', Emit ''manual_cleared'' (PDict [(''ok'', PBool True)])]"
  using connected_ack [where port = accepting_port and p = decimal_text
      and data = "PDict [(''state'', PInt 0)]"]
  by (simp add: accepting_port_def read_state_def)

text \<open>
  For \<open>toggle_relay\<close> with state 5 the relay is switched on, and the reply carries 5,
  which is neither 1 nor true.
\<close>

theorem connected_ack_counterexample:
  "handle_toggle decimal_text (Some accepting_port) (PDict [(''state'', PInt 5)]) =
     [Write ''RELAY:1\<newline>'', Emit ''relay_ack'' (PDict [(''sent'', PInt 5)])] \<and>
   spec_encode (SetRelay True) = ''RELAY:1\<newline>'' \<and>
   PInt 5 \<noteq> PInt 1 \<and> PInt 5 \<noteq> PBool True"
  by (simp add: handler_defs read_state_def cmd_defs accepting_port_def)

text \<open>
  C10. When the payload's state is an integer other than 0 and 1 and the write
  returns, the device is sent \<open>RELAY:1\<close> (or \<open>AUTO:1\<close>) and the reply carries that
  integer under \<open>sent\<close>, not the 1 that was written.
\<close>

theorem ack_echoes_state:
  assumes "n \<noteq> 0" and "n \<noteq> 1" and "map_of kvs ''state'' = Some (PInt n)"
    and "port ''RELAY:1\<newline>'' = None" and "port ''AUTO:1\<newline>'' = None"
  shows "handle_toggle p (Some port) (PDict kvs) =
           [Write ''RELAY:1\<newline>'', Emit ''relay_ack'' (PDict [(''sent'', PInt n)])] \<and>
         handle_set_auto p (Some port) (PDict kvs) =
           [Write ''AUTO:1\<newline>'', Emit ''auto_ack'' (PDict [(''sent'', PInt n)])] \<and>
         PInt n \<noteq> PInt 1"
  using assms by (simp add: handler_defs read_state_def cmd_defs)

theorem ack_echoes_state_witness:
  "(7::int) \<noteq> 0 \<and> (7::int) \<noteq> 1 \<and> map_of [(''state'', PInt 7)] ''state'' = Some (PInt 7) \<and>
   accepting_port ''RELAY:1\<newline>'' = None \<and> accepting_port ''AUTO:1\<newline>'' = None \<and>
   handle_toggle decimal_text (Some accepting_port) (PDict [(''state'', PInt 7)]) =
     [Write ''RELAY:1\<newline>'', Emit ''relay_ack'' (PDict [(''sent'', PInt 7)])] \<and>
   handle_set_auto decimal_text (Some accepting_port) (PDict [(''state'', PInt 7)]) =
     [Write ''AUTO:1\<newline>'', Emit ''auto_ack'' (PDict [(''sent'', PInt 7)])]"
  using ack_echoes_state [where n = 7 and kvs = "[(''state'', PInt 7)]"
      and port = accepting_port and p = decimal_text]
  by (simp add: accepting_port_def)

section \<open>Coercion of the state flag\<close>

text \<open>
  C8. \<open>toggle_relay\<close> and \<open>set_auto\<close> first convert the state of the payload with
  \<^verbatim>\<open>int\<close>: an integer is taken as it is, a bool as 0 or 1, a finite float is truncated
  towards zero, a text is parsed. The command is on exactly when that integer is not
  0, and the handler does what it does for a payload holding that integer. A payload
  that is not an object, an object without \<open>state\<close>, and a state that \<^verbatim>\<open>int\<close> cannot
  convert (a text that does not parse, null, a list, an object, a float that is not
  finite) all give 0, that is off, and the request is answered as a request with
  state 0 is. Every request gets exactly one reply.
\<close>

theorem state_coercion:
  "(map_of kvs ''state'' = Some (PInt n) \<longrightarrow> read_state p (PDict kvs) = n) \<and>
   (map_of kvs ''state'' = Some (PBool b) \<longrightarrow> read_state p (PDict kvs) = (if b then 1 else 0)) \<and>
   (map_of kvs ''state'' = Some (PFloat (Finite q)) \<longrightarrow>
      read_state p (PDict kvs) = (if 0 \<le> q then \<lfloor>q\<rfloor> else \<lceil>q\<rceil>)) \<and>
   (map_of kvs ''state'' = Some (PStr s) \<and> p s = Inr n \<longrightarrow> read_state p (PDict kvs) = n) \<and>
   (map_of kvs ''state'' = Some (PStr s) \<and> p s = Inl e \<longrightarrow> read_state p (PDict kvs) = 0) \<and>
   (map_of kvs ''state'' = Some v \<and>
      (v = PNone \<or> v = PFloat NaN \<or> v = PFloat PosInf \<or> v = PFloat NegInf \<or>
       (\<exists>xs. v = PList xs) \<or> (\<exists>d. v = PDict d)) \<longrightarrow>
      read_state p (PDict kvs) = 0) \<and>
   (map_of kvs ''state'' = None \<longrightarrow> read_state p (PDict kvs) = 0) \<and>
   ((\<forall>kvs. data \<noteq> PDict kvs) \<longrightarrow> read_state p data = 0) \<and>
   command_text p (Toggle_relay data) = spec_encode (SetRelay (read_state p data \<noteq> 0)) \<and>
   command_text p (Set_auto data) = spec_encode (SetAuto (read_state p data \<noteq> 0)) \<and>
   on_event p ser (Toggle_relay data) =
     on_event p ser (Toggle_relay (PDict [(''state'', PInt (read_state p data))])) \<and>
   on_event p ser (Set_auto data) =
     on_event p ser (Set_auto (PDict [(''state'', PInt (read_state p data))])) \<and>
   (read_state p data = 0 \<longrightarrow>
      on_event p (Some accepting_port) (Toggle_relay data) =
        [Write ''RELAY:0\<newline>'', Emit ''relay_ack'' (PDict [(''sent'', PInt 0)])] \<and>
      on_event p (Some accepting_port) (Set_auto data) =
        [Write ''AUTO:0\<newline>'', Emit ''auto_ack'' (PDict [(''sent'', PInt 0)])]) \<and>
   length (emitted (on_event p ser (Toggle_relay data))) = 1 \<and>
   length (emitted (on_event p ser (Set_auto data))) = 1"
proof -
  have nd: "(\<forall>kvs. data \<noteq> PDict kvs) \<longrightarrow> read_state p data = 0"
    by (cases data) (simp_all add: read_state_def)
  have one: "length (emitted (on_event p ser (Toggle_relay data))) = 1 \<and>
             length (emitted (on_event p ser (Set_auto data))) = 1"
    by (simp add: handler_defs split: option.splits)
  have zero: "read_state p data = 0 \<longrightarrow>
      on_event p (Some accepting_port) (Toggle_relay data) =
        [Write ''RELAY:0\<newline>'', Emit ''relay_ack'' (PDict [(''sent'', PInt 0)])] \<and>
      on_event p (Some accepting_port) (Set_auto data) =
        [Write ''AUTO:0\<newline>'', Emit ''auto_ack'' (PDict [(''sent'', PInt 0)])]"
    by (simp add: handler_defs cmd_defs accepting_port_def)
  have i: "map_of kvs ''state'' = Some (PInt n) \<longrightarrow> read_state p (PDict kvs) = n"
    by (simp add: read_state_def)
  have bo: "map_of kvs ''state'' = Some (PBool b) \<longrightarrow>
      read_state p (PDict kvs) = (if b then 1 else 0)"
    by (simp add: read_state_def)
  have f: "map_of kvs ''state'' = Some (PFloat (Finite q)) \<longrightarrow>
      read_state p (PDict kvs) = (if 0 \<le> q then \<lfloor>q\<rfloor> else \<lceil>q\<rceil>)"
    by (simp add: read_state_def)
  have s1: "map_of kvs ''state'' = Some (PStr s) \<and> p s = Inr n \<longrightarrow>
      read_state p (PDict kvs) = n"
    by (simp add: read_state_def)
  have s0: "map_of kvs ''state'' = Some (PStr s) \<and> p s = Inl e \<longrightarrow>
      read_state p (PDict kvs) = 0"
    by (simp add: read_state_def)
  have bad: "map_of kvs ''state'' = Some v \<and>
      (v = PNone \<or> v = PFloat NaN \<or> v = PFloat PosInf \<or> v = PFloat NegInf \<or>
       (\<exists>xs. v = PList xs) \<or> (\<exists>d. v = PDict d)) \<longrightarrow>
      read_state p (PDict kvs) = 0"
    by (auto simp: read_state_def)
  have none: "map_of kvs ''state'' = None \<longrightarrow> read_state p (PDict kvs) = 0"
    by (simp add: read_state_def)
  have t: "command_text p (Toggle_relay data) = spec_encode (SetRelay (read_state p data \<noteq> 0))"
    by (simp add: cmd_defs)
  have u: "command_text p (Set_auto data) = spec_encode (SetAuto (read_state p data \<noteq> 0))"
    by (simp add: cmd_defs)
  have same: "read_state p (PDict [(''state'', PInt (read_state p data))]) = read_state p data"
    by (simp add: read_state_def)
  have ht: "on_event p ser (Toggle_relay data) =
      on_event p ser (Toggle_relay (PDict [(''state'', PInt (read_state p data))]))"
    by (simp add: handle_toggle_def same)
  have hs: "on_event p ser (Set_auto data) =
      on_event p ser (Set_auto (PDict [(''state'', PInt (read_state p data))]))"
    by (simp add: handle_set_auto_def same)
  show ?thesis
    by (rule conjI [OF i conjI [OF bo conjI [OF f conjI [OF s1 conjI [OF s0 conjI [OF bad
        conjI [OF none conjI [OF nd conjI [OF t conjI [OF u conjI [OF ht conjI [OF hs
        conjI [OF zero one]]]]]]]]]]]]])
qed

theorem state_coercion_witness:
  "read_state decimal_text (PDict [(''state'', PInt 3)]) = 3 \<and>
   read_state decimal_text (PDict [(''state'', PBool True)]) = 1 \<and>
   read_state decimal_text (PDict [(''state'', PFloat (Finite (27 / 10)))]) = 2 \<and>
   read_state decimal_text (PDict [(''state'', PFloat (Finite (- (27 / 10))))]) = - 2 \<and>
   decimal_text ''12'' = Inr 12 \<and>
   read_state decimal_text (PDict [(''state'', PStr ''12'')]) = 12 \<and>
   decimal_text ''on'' = Inl ValueError \<and>
   read_state decimal_text (PDict [(''state'', PStr ''on'')]) = 0 \<and>
   read_state decimal_text (PDict [(''state'', PNone)]) = 0 \<and>
   read_state decimal_text (PDict [(''mode'', PInt 3)]) = 0 \<and>
   read_state decimal_text (PStr ''on'') = 0 \<and>
   on_event decimal_text (Some accepting_port) (Toggle_relay (PStr ''on'')) =
     [Write ''RELAY:0\<newline>'', Emit ''relay_ack'' (PDict [(''sent'', PInt 0)])] \<and>
   on_event decimal_text (Some accepting_port) (Set_auto (PStr ''on'')) =
     [Write ''AUTO:0\<newline>'', Emit ''auto_ack'' (PDict [(''sent'', PInt 0)])]"
proof -
  have t12: "decimal_text ''12'' = Inr 12"
    by (simp add: decimal_text_def)
  have ton: "decimal_text ''on'' = Inl ValueError"
    by (simp add: decimal_text_def)
  have nd: "\<forall>kvs. PStr ''on'' \<noteq> PDict kvs"
    by simp
  from state_coercion [where kvs = "[(''state'', PInt 3)]" and n = 3 and p = decimal_text]
  have a: "read_state decimal_text (PDict [(''state'', PInt 3)]) = 3"
    by simp
  from state_coercion [where kvs = "[(''state'', PBool True)]" and b = True and p = decimal_text]
  have b: "read_state decimal_text (PDict [(''state'', PBool True)]) = 1"
    by simp
  from state_coercion [where kvs = "[(''state'', PFloat (Finite (27 / 10)))]"
      and q = "27 / 10" and p = decimal_text]
  have c: "read_state decimal_text (PDict [(''state'', PFloat (Finite (27 / 10)))]) = 2"
    by (simp add: floor_2_7)
  from state_coercion [where kvs = "[(''state'', PFloat (Finite (- (27 / 10))))]"
      and q = "- (27 / 10)" and p = decimal_text]
  have d: "read_state decimal_text (PDict [(''state'', PFloat (Finite (- (27 / 10))))]) = - 2"
    by (simp add: ceiling_minus_2_7)
  from state_coercion [where kvs = "[(''state'', PStr ''12'')]" and s = "''12''"
      and n = 12 and p = decimal_text] t12
  have e: "read_state decimal_text (PDict [(''state'', PStr ''12'')]) = 12"
    by simp
  from state_coercion [where kvs = "[(''state'', PStr ''on'')]" and s = "''on''"
      and e = ValueError and p = decimal_text] ton
  have f: "read_state decimal_text (PDict [(''state'', PStr ''on'')]) = 0"
    by simp
  from state_coercion [where kvs = "[(''state'', PNone)]" and v = PNone and p = decimal_text]
  have g: "read_state decimal_text (PDict [(''state'', PNone)]) = 0"
    by simp
  from state_coercion [where kvs = "[(''mode'', PInt 3)]" and p = decimal_text]
  have h: "read_state decimal_text (PDict [(''mode'', PInt 3)]) = 0"
    by simp
  from state_coercion [where data = "PStr ''on''" and p = decimal_text] nd
  have i: "read_state decimal_text (PStr ''on'') = 0"
    by blast
  from state_coercion [where data = "PStr ''on''" and p = decimal_text] i
  have j: "on_event decimal_text (Some accepting_port) (Toggle_relay (PStr ''on'')) =
     [Write ''RELAY:0\<newline>'', Emit ''relay_ack'' (PDict [(''sent'', PInt 0)])] \<and>
   on_event decimal_text (Some accepting_port) (Set_auto (PStr ''on'')) =
     [Write ''AUTO:0\<newline>'', Emit ''auto_ack'' (PDict [(''sent'', PInt 0)])]"
    by blast
  from a b c d e f g h i j t12 ton show ?thesis
    by simp
qed

text \<open>
  For \<open>toggle_relay\<close> with state 0.5 the state is not 0, and the relay is switched
  off: \<^verbatim>\<open>int(0.5)\<close> is 0.
\<close>

theorem state_coercion_counterexample:
  "handle_toggle decimal_text (Some accepting_port) (PDict [(''state'', PFloat (Finite (1 / 2)))]) =
     [Write ''RELAY:0\<newline>'', Emit ''relay_ack'' (PDict [(''sent'', PInt 0)])] \<and>
   (1 / 2 :: rat) \<noteq> 0 \<and>
   spec_encode (SetRelay ((1 / 2 :: rat) \<noteq> 0)) = ''RELAY:1\<newline>''"
  by (simp add: handler_defs read_state_def cmd_defs accepting_port_def floor_half)

end
